theory Spec2Isabelle
  imports Main "HOL-Library.Sublist"
begin

section \<open>Python values, exceptions and the operations the translator uses\<close>

text \<open>
  The value a parsed JSON body has in Python: \<open>None\<close>, a bool, an int, a float, a str,
  a list or a dict with string keys. A float is kept as far as its truth value needs:
  a finite float is \<open>m * 2 ^ e\<close> (zero exactly when \<open>m = 0\<close>), or it is an
  infinity or a NaN. A dict is an association list of its items, looked up by key.
  A str is a list of characters; the characters are the code points below 256.
\<close>

datatype pyfloat = Finite int int | Infinite bool | NaN

datatype pyval =
    PNone
  | PBool bool
  | PInt int
  | PFloat pyfloat
  | PStr string
  | PList "pyval list"
  | PDict "(string \<times> pyval) list"

text \<open>
  The exception classes that matter to the three \<open>except\<close> clauses.
  \<open>RequestsJSONDecodeError\<close> is \<open>requests.exceptions.JSONDecodeError\<close>, which
  inherits from \<open>InvalidJSONError\<close> (a \<open>RequestException\<close>) and from
  \<open>json.JSONDecodeError\<close>; \<open>JSONDecodeError\<close> is the plain \<open>json.JSONDecodeError\<close>.
  \<open>UnicodeEncodeError\<close> is what \<open>print\<close> raises when the stream cannot encode a line.
  \<open>KeyboardInterrupt\<close> and \<open>SystemExit\<close> derive from \<open>BaseException\<close> only.
\<close>

datatype pyexn =
    ConnectionError
  | Timeout
  | HTTPError
  | OtherRequestException
  | RequestsJSONDecodeError
  | JSONDecodeError
  | TypeError
  | KeyError
  | IndexError
  | EOFError
  | UnicodeEncodeError
  | OtherException
  | KeyboardInterrupt
  | SystemExit

fun isinstance_RequestException :: "pyexn \<Rightarrow> bool" where
  "isinstance_RequestException ConnectionError = True"
| "isinstance_RequestException Timeout = True"
| "isinstance_RequestException HTTPError = True"
| "isinstance_RequestException OtherRequestException = True"
| "isinstance_RequestException RequestsJSONDecodeError = True"
| "isinstance_RequestException _ = False"

fun isinstance_JSONDecodeError :: "pyexn \<Rightarrow> bool" where
  "isinstance_JSONDecodeError RequestsJSONDecodeError = True"
| "isinstance_JSONDecodeError JSONDecodeError = True"
| "isinstance_JSONDecodeError _ = False"

fun isinstance_Exception :: "pyexn \<Rightarrow> bool" where
  "isinstance_Exception KeyboardInterrupt = False"
| "isinstance_Exception SystemExit = False"
| "isinstance_Exception _ = True"

text \<open>Evaluation that may raise: \<open>Inl\<close> is the exception raised.\<close>

definition bind_exn :: "pyexn + 'a \<Rightarrow> ('a \<Rightarrow> pyexn + 'b) \<Rightarrow> pyexn + 'b" where
  "bind_exn m f = (case m of Inl e \<Rightarrow> Inl e | Inr x \<Rightarrow> f x)"

text \<open>
  \<open>a and b\<close> under an \<open>if\<close>: \<open>b\<close> is evaluated only when \<open>a\<close> is true, so an
  exception of \<open>b\<close> is raised only then.
\<close>

definition and_then :: "pyexn + bool \<Rightarrow> pyexn + bool \<Rightarrow> pyexn + bool" where
  "and_then a b = (case a of Inl e \<Rightarrow> Inl e | Inr t \<Rightarrow> if t then b else Inr False)"

text \<open>The truth value of a Python object.\<close>

fun truthy :: "pyval \<Rightarrow> bool" where
  "truthy PNone = False"
| "truthy (PBool b) = b"
| "truthy (PInt i) = (i \<noteq> 0)"
| "truthy (PFloat (Finite m e)) = (m \<noteq> 0)"
| "truthy (PFloat _) = True"
| "truthy (PStr s) = (s \<noteq> [])"
| "truthy (PList xs) = (xs \<noteq> [])"
| "truthy (PDict kvs) = (kvs \<noteq> [])"

text \<open>\<open>k in s\<close> for two strs: \<open>k\<close> occurs in \<open>s\<close> as a contiguous run.\<close>

fun str_contains :: "string \<Rightarrow> string \<Rightarrow> bool" where
  "str_contains [] k = (k = [])"
| "str_contains (c # s) k = (prefix k (c # s) \<or> str_contains s k)"

text \<open>
  \<open>"k" in x\<close>: key membership for a dict, element membership for a list, substring for
  a str, \<open>TypeError\<close> for anything else.
\<close>

fun py_in :: "string \<Rightarrow> pyval \<Rightarrow> pyexn + bool" where
  "py_in k (PDict kvs) = Inr (k \<in> set (map fst kvs))"
| "py_in k (PList xs) = Inr (PStr k \<in> set xs)"
| "py_in k (PStr s) = Inr (str_contains s k)"
| "py_in k _ = Inl TypeError"

text \<open>
  \<open>x["k"]\<close>: the value of the key for a dict (\<open>KeyError\<close> when absent), \<open>TypeError\<close>
  for a list or a str (their indices must be integers) and for anything else.
\<close>

fun getitem_key :: "pyval \<Rightarrow> string \<Rightarrow> pyexn + pyval" where
  "getitem_key (PDict kvs) k = (case map_of kvs k of None \<Rightarrow> Inl KeyError | Some v \<Rightarrow> Inr v)"
| "getitem_key _ k = Inl TypeError"

text \<open>
  \<open>x[0]\<close>: the first element of a list, the first character of a str (\<open>IndexError\<close>
  when empty), \<open>KeyError\<close> for a dict (its keys are strs, never \<open>0\<close>), \<open>TypeError\<close>
  for anything else.
\<close>

fun getitem_0 :: "pyval \<Rightarrow> pyexn + pyval" where
  "getitem_0 (PList []) = Inl IndexError"
| "getitem_0 (PList (x # xs)) = Inr x"
| "getitem_0 (PStr []) = Inl IndexError"
| "getitem_0 (PStr (c # s)) = Inr (PStr [c])"
| "getitem_0 (PDict kvs) = Inl KeyError"
| "getitem_0 _ = Inl TypeError"

text \<open>\<open>len(x)\<close>: defined for a list, a str and a dict, \<open>TypeError\<close> otherwise.\<close>

fun py_len :: "pyval \<Rightarrow> pyexn + nat" where
  "py_len (PList xs) = Inr (length xs)"
| "py_len (PStr s) = Inr (length s)"
| "py_len (PDict kvs) = Inr (length (remdups (map fst kvs)))"
| "py_len _ = Inl TypeError"

section \<open>The HTTP exchange\<close>

record request =
  http_method :: string
  url :: string
  headers :: "(string \<times> string) list"
  json_payload :: pyval

text \<open>
  A response as the translator sees it: its status code, its body text and what
  \<open>response.json()\<close> does on it (the parsed value, or the exception it raises).
\<close>

record response =
  status_code :: int
  response_text :: string
  json_result :: "pyexn + pyval"

text \<open>\<open>response.raise_for_status()\<close> raises \<open>HTTPError\<close> for a 4xx or 5xx status.\<close>

definition raise_for_status :: "response \<Rightarrow> pyexn + unit" where
  "raise_for_status r =
     (if 400 \<le> status_code r \<and> status_code r < 600 then Inl HTTPError else Inr ())"

text \<open>
  What the program does to the outside: a POST, a line printed (its literal text and the
  values formatted into it), a prompt of \<open>input\<close>, and the shell calling the translator.
\<close>

datatype piece = Lit string | Str_of pyval | Str_of_exn pyexn

datatype event =
    Http_post request
  | Print "piece list"
  | Input_prompt string
  | Call_translate string string

text \<open>
  \<open>print\<close> can raise: the standard output may be unable to encode the text formatted
  into a line, or be closed. \<open>stdout line\<close> is the exception that printing \<open>line\<close>
  raises, \<open>None\<close> when the line is written. \<open>print_then stdout line k\<close> is a \<open>print\<close>
  followed by \<open>k\<close>: the call of \<open>print\<close> is an event in both cases, and \<open>k\<close> is reached
  only when the line is written.
\<close>

definition print_then ::
  "(piece list \<Rightarrow> pyexn option) \<Rightarrow> piece list \<Rightarrow> event list \<times> (pyexn + 'a) \<Rightarrow>
     event list \<times> (pyexn + 'a)" where
  "print_then stdout line k =
     (case stdout line of
        None \<Rightarrow> (Print line # fst k, snd k)
      | Some e \<Rightarrow> ([Print line], Inl e))"

section \<open>translate\_english\_to\_japanese\<close>

definition api_url_of :: "string \<Rightarrow> string" where
  "api_url_of api_key =
     ''https://generativelanguage.googleapis.com/v1beta/models/gemini-2.0-flash:generateContent?key=''
       @ api_key"

definition prompt_of :: "string \<Rightarrow> string" where
  "prompt_of english_text =
     ''Translate the following English text to Japanese (only provide the Japanese text):''
       @ [CHR 0x0A, CHR 0x0A, CHR 0x22] @ english_text @ [CHR 0x22]"

definition request_payload_of :: "string \<Rightarrow> pyval" where
  "request_payload_of english_text =
     PDict [(''contents'',
       PList [PDict [(''role'', PStr ''user''),
                     (''parts'', PList [PDict [(''text'', PStr (prompt_of english_text))]])]])]"

definition request_headers :: "(string \<times> string) list" where
  "request_headers =
     [(''Content-Type'', ''application/json''), (''Accept'', ''application/json'')]"

definition build_request :: "string \<Rightarrow> string \<Rightarrow> request" where
  "build_request english_text api_key =
     \<lparr>http_method = ''POST'', url = api_url_of api_key, headers = request_headers,
      json_payload = request_payload_of english_text\<rparr>"

text \<open>The sub-expressions of the structure test, each of which may raise.\<close>

definition candidates_of :: "pyval \<Rightarrow> pyexn + pyval" where
  "candidates_of rj = getitem_key rj ''candidates''"

definition candidate0_of :: "pyval \<Rightarrow> pyexn + pyval" where
  "candidate0_of rj = bind_exn (candidates_of rj) getitem_0"

definition content_of :: "pyval \<Rightarrow> pyexn + pyval" where
  "content_of rj = bind_exn (candidate0_of rj) (\<lambda>c. getitem_key c ''content'')"

definition parts_of :: "pyval \<Rightarrow> pyexn + pyval" where
  "parts_of rj = bind_exn (content_of rj) (\<lambda>c. getitem_key c ''parts'')"

definition part0_of :: "pyval \<Rightarrow> pyexn + pyval" where
  "part0_of rj = bind_exn (parts_of rj) getitem_0"

definition text_of :: "pyval \<Rightarrow> pyexn + pyval" where
  "text_of rj = bind_exn (part0_of rj) (\<lambda>p. getitem_key p ''text'')"

definition len_positive :: "pyexn + pyval \<Rightarrow> pyexn + bool" where
  "len_positive m = bind_exn (bind_exn m py_len) (\<lambda>n. Inr (n > 0))"

text \<open>The condition of the \<open>if\<close>, conjunct by conjunct, in the source's order.\<close>

definition structure_test :: "pyval \<Rightarrow> pyexn + bool" where
  "structure_test rj =
     and_then (Inr (truthy rj))
    (and_then (py_in ''candidates'' rj)
    (and_then (len_positive (candidates_of rj))
    (and_then (bind_exn (candidate0_of rj) (py_in ''content''))
    (and_then (bind_exn (content_of rj) (py_in ''parts''))
    (and_then (len_positive (parts_of rj))
              (bind_exn (part0_of rj) (py_in ''text'')))))))"

definition msg_structure :: string where
  "msg_structure = ''Translation failed: API response structure was unexpected.''"

definition msg_network :: string where
  "msg_network = ''Translation failed due to network error.''"

definition msg_json :: string where
  "msg_json = ''Translation failed: Invalid JSON response from API.''"

definition msg_unexpected :: string where
  "msg_unexpected = ''Translation failed due to an unexpected error.''"

text \<open>The diagnostic lines of the function.\<close>

definition structure_line :: "pyval \<Rightarrow> piece list" where
  "structure_line response_json =
     [Lit ''Error: Unexpected API response structure. Raw response:'', Lit [CHR 0x0A],
      Str_of response_json]"

definition network_line :: "pyexn \<Rightarrow> piece list" where
  "network_line e = [Lit ''Error: Network or HTTP request failed: '', Str_of_exn e]"

definition json_line :: "pyexn \<Rightarrow> piece list" where
  "json_line e = [Lit ''Error: Failed to parse JSON response: '', Str_of_exn e]"

definition raw_line :: "response option \<Rightarrow> piece list" where
  "raw_line resp =
     [Lit ''Raw response received: '',
      Lit (case resp of Some r \<Rightarrow> response_text r | None \<Rightarrow> ''No response'')]"

definition unexpected_line :: "pyexn \<Rightarrow> piece list" where
  "unexpected_line e = [Lit ''An unexpected error occurred: '', Str_of_exn e]"

text \<open>
  The body of the \<open>try\<close>, after the POST has returned \<open>response\<close>: the events so far and
  either the exception raised or the value returned. The \<open>print\<close> of the \<open>else\<close> branch is
  inside the \<open>try\<close>: when it raises, the exception goes to the \<open>except\<close> clauses like any
  other.
\<close>

definition try_body ::
  "response \<Rightarrow> (piece list \<Rightarrow> pyexn option) \<Rightarrow> event list \<times> (pyexn + pyval)" where
  "try_body resp stdout =
     (case raise_for_status resp of
        Inl e \<Rightarrow> ([], Inl e)
      | Inr _ \<Rightarrow>
        (case json_result resp of
           Inl e \<Rightarrow> ([], Inl e)
         | Inr response_json \<Rightarrow>
           (case structure_test response_json of
              Inl e \<Rightarrow> ([], Inl e)
            | Inr ok \<Rightarrow>
                if ok then ([], text_of response_json)
                else print_then stdout (structure_line response_json)
                       ([], Inr (PStr msg_structure)))))"

text \<open>
  The three \<open>except\<close> clauses, tried in the source's order; \<open>resp\<close> is the response when
  the name \<open>response\<close> is bound. An exception none of them matches propagates. The
  prints of a clause are outside the \<open>try\<close>: when one raises, the exception leaves the
  function and the \<open>return\<close> of the clause is not reached.
\<close>

definition handle_exn ::
  "pyexn \<Rightarrow> response option \<Rightarrow> (piece list \<Rightarrow> pyexn option) \<Rightarrow> event list \<times> (pyexn + pyval)" where
  "handle_exn e resp stdout =
     (if isinstance_RequestException e then
        print_then stdout (network_line e) ([], Inr (PStr msg_network))
      else if isinstance_JSONDecodeError e then
        print_then stdout (json_line e)
          (print_then stdout (raw_line resp) ([], Inr (PStr msg_json)))
      else if isinstance_Exception e then
        print_then stdout (unexpected_line e) ([], Inr (PStr msg_unexpected))
      else ([], Inl e))"

text \<open>
  The function itself. \<open>post\<close> is the endpoint: what \<open>requests.post\<close> does with the
  request, a response or an exception; \<open>stdout\<close> is the standard output. The result is
  the events of the call and either the value returned or the exception that leaves the
  function.
\<close>

definition translate_english_to_japanese ::
  "string \<Rightarrow> string \<Rightarrow> (request \<Rightarrow> pyexn + response) \<Rightarrow> (piece list \<Rightarrow> pyexn option) \<Rightarrow>
     event list \<times> (pyexn + pyval)" where
  "translate_english_to_japanese english_text api_key post stdout =
     (let req = build_request english_text api_key in
      case post req of
        Inl e \<Rightarrow> (let (evs, r) = handle_exn e None stdout in (Http_post req # evs, r))
      | Inr resp \<Rightarrow>
        (case try_body resp stdout of
           (evs, Inl e) \<Rightarrow>
             (let (evs', r) = handle_exn e (Some resp) stdout in (Http_post req # evs @ evs', r))
         | (evs, Inr v) \<Rightarrow> (Http_post req # evs, Inr v)))"

section \<open>The shell\<close>

text \<open>
  \<open>str.isspace\<close>, \<open>str.lower\<close> and \<open>str.strip\<close> on the code points below 256: the
  whitespace there is 9 to 13, 28 to 32, 133 and 160; the cased letters are A to Z and
  the Latin-1 capitals 192 to 222 (215, the multiplication sign, is not a letter).
\<close>

definition isspace :: "char \<Rightarrow> bool" where
  "isspace c = (let n = (of_char c :: nat) in
     (9 \<le> n \<and> n \<le> 13) \<or> (28 \<le> n \<and> n \<le> 32) \<or> n = 133 \<or> n = 160)"

definition lower_char :: "char \<Rightarrow> char" where
  "lower_char c = (let n = (of_char c :: nat) in
     if (65 \<le> n \<and> n \<le> 90) \<or> (192 \<le> n \<and> n \<le> 222 \<and> n \<noteq> 215)
     then char_of (n + 32) else c)"

definition lower :: "string \<Rightarrow> string" where
  "lower s = map lower_char s"

definition strip :: "string \<Rightarrow> string" where
  "strip s = rev (dropWhile isspace (rev (dropWhile isspace s)))"

text \<open>
  How a run of the shell ends: the loop is left by \<open>break\<close> and the program finishes,
  or an exception nobody catches ends it.
\<close>

datatype ending = Finished | Uncaught pyexn

definition english_prompt :: string where
  "english_prompt = CHR 0x0A # ''English: ''"

text \<open>
  The \<open>while True\<close> loop over the lines that \<open>input\<close> returns; with no line left,
  \<open>input\<close> raises \<open>EOFError\<close>. \<open>post n\<close> is the endpoint at the \<open>n\<close>-th call of the
  translator, \<open>stdout\<close> the standard output it prints to. The loop ends on every finite
  input, so it is a recursion on the lines. The lines the shell itself prints are
  recorded as events and taken as written; an exception that leaves the translator, one
  raised by its prints included, ends the run.
\<close>

fun read_loop ::
  "(nat \<Rightarrow> request \<Rightarrow> pyexn + response) \<Rightarrow> (piece list \<Rightarrow> pyexn option) \<Rightarrow> nat \<Rightarrow> string \<Rightarrow>
     string list \<Rightarrow> event list \<times> ending" where
  "read_loop post stdout n api_key [] = ([Input_prompt english_prompt], Uncaught EOFError)"
| "read_loop post stdout n api_key (english_input # rest) =
     (if lower english_input = ''exit'' then ([Input_prompt english_prompt], Finished)
      else if strip english_input = [] then
        (let (evs, fin) = read_loop post stdout n api_key rest in
         (Input_prompt english_prompt # Print [Lit ''Please enter some text to translate.''] # evs,
          fin))
      else
        (case translate_english_to_japanese english_input api_key (post n) stdout of
           (tevs, Inl e) \<Rightarrow>
             (Input_prompt english_prompt # Call_translate english_input api_key # tevs, Uncaught e)
         | (tevs, Inr japanese_translation) \<Rightarrow>
             (let (evs, fin) = read_loop post stdout (Suc n) api_key rest in
              (Input_prompt english_prompt # Call_translate english_input api_key # tevs
                 @ [Print [Lit ''Japanese: '', Str_of japanese_translation]] @ evs,
               fin))))"

definition banner :: "event list" where
  "banner = [Print [Lit ''--- English to Japanese Translator ---''],
             Print [Lit ''This program uses the Google Gemini API for translation.'']]"

definition after_key ::
  "(nat \<Rightarrow> request \<Rightarrow> pyexn + response) \<Rightarrow> (piece list \<Rightarrow> pyexn option) \<Rightarrow> string \<Rightarrow>
     string list \<Rightarrow> event list \<times> ending" where
  "after_key post stdout api_key lines =
     (let (evs, fin) = read_loop post stdout 0 api_key lines;
          intro = Print [Lit (CHR 0x0A # ''Enter English text to translate (type ''
                              @ [CHR 0x27] @ ''exit'' @ [CHR 0x27] @ '' to quit):'')]
      in case fin of
           Finished \<Rightarrow>
             (intro # evs @ [Print [Lit (CHR 0x0A # ''Exiting translator. Goodbye!'')]], Finished)
         | Uncaught e \<Rightarrow> (intro # evs, Uncaught e))"

text \<open>
  The main block: \<open>getenv_key\<close> is what \<open>os.getenv("GEMINI_API_KEY")\<close> returns, \<open>lines\<close>
  are the lines typed. A key that is unset or empty is asked for.
\<close>

definition main ::
  "string option \<Rightarrow> (nat \<Rightarrow> request \<Rightarrow> pyexn + response) \<Rightarrow> (piece list \<Rightarrow> pyexn option) \<Rightarrow>
     string list \<Rightarrow> event list \<times> ending" where
  "main getenv_key post stdout lines =
     (if (case getenv_key of None \<Rightarrow> True | Some k \<Rightarrow> k = []) then
        (case lines of
           [] \<Rightarrow> (banner @ [Input_prompt ''Please enter your Google Gemini API Key: ''],
                  Uncaught EOFError)
         | api_key # rest \<Rightarrow>
             (let (evs, fin) = after_key post stdout api_key rest in
              (banner @ Input_prompt ''Please enter your Google Gemini API Key: '' # evs, fin)))
      else
        (let (evs, fin) = after_key post stdout (case getenv_key of Some k \<Rightarrow> k | None \<Rightarrow> []) lines in
         (banner @ Print [Lit ''Using API key from GEMINI_API_KEY environment variable.''] # evs,
          fin)))"

section \<open>The response path in the words of the specification\<close>

text \<open>
  The path \<open>candidates[0].content.parts[0].text\<close> as the specification describes it:
  \<open>candidates\<close> is a non-empty sequence, \<open>content\<close> is present on its first element,
  \<open>parts\<close> is a non-empty sequence, \<open>text\<close> is present on its first element. A field
  is present on an object only, a first element in a non-empty array only.
\<close>

fun field :: "string \<Rightarrow> pyval \<Rightarrow> pyval option" where
  "field k (PDict kvs) = map_of kvs k"
| "field k _ = None"

fun first_element :: "pyval \<Rightarrow> pyval option" where
  "first_element (PList (x # xs)) = Some x"
| "first_element _ = None"

definition path_text :: "pyval \<Rightarrow> pyval option" where
  "path_text rj =
     Option.bind (field ''candidates'' rj) (\<lambda>cs.
     Option.bind (first_element cs) (\<lambda>c.
     Option.bind (field ''content'' c) (\<lambda>ct.
     Option.bind (field ''parts'' ct) (\<lambda>ps.
     Option.bind (first_element ps) (\<lambda>p.
     field ''text'' p)))))"

text \<open>Mocked endpoints: one that answers every request with a given response, one that
  raises a given exception.\<close>

definition mock_response :: "int \<Rightarrow> string \<Rightarrow> pyexn + pyval \<Rightarrow> request \<Rightarrow> pyexn + response" where
  "mock_response st body js req = Inr \<lparr>status_code = st, response_text = body, json_result = js\<rparr>"

definition mock_raises :: "pyexn \<Rightarrow> request \<Rightarrow> pyexn + response" where
  "mock_raises e req = Inl e"

definition success_body :: "pyval \<Rightarrow> pyval" where
  "success_body t =
     PDict [(''candidates'',
       PList [PDict [(''content'', PDict [(''parts'', PList [PDict [(''text'', t)]])])]])]"

text \<open>An endpoint that changes from call to call: the connection fails at the first call,
  the body is not JSON at the second, and every later call succeeds.\<close>

definition flaky_endpoint :: "nat \<Rightarrow> request \<Rightarrow> pyexn + response" where
  "flaky_endpoint n =
     (if n = 0 then mock_raises ConnectionError
      else if n = 1 then mock_response 200 ''<html>'' (Inl RequestsJSONDecodeError)
      else mock_response 200 ''{}'' (Inr (success_body (PStr ''konnichiwa''))))"

text \<open>An endpoint that behaves the same at every call of the translator.\<close>

definition every_call :: "(request \<Rightarrow> pyexn + response) \<Rightarrow> nat \<Rightarrow> request \<Rightarrow> pyexn + response" where
  "every_call post n = post"

text \<open>
  Two standard outputs: one that writes every line, and one that cannot encode the text
  of the given lines and writes every other line.
\<close>

definition stdout_ok :: "piece list \<Rightarrow> pyexn option" where
  "stdout_ok line = None"

definition stdout_rejecting :: "piece list list \<Rightarrow> piece list \<Rightarrow> pyexn option" where
  "stdout_rejecting bad line = (if line \<in> set bad then Some UnicodeEncodeError else None)"

section \<open>Predicates of the properties\<close>

text \<open>
  The types the specification expects along the path, as far as the path goes: the body is
  an object; \<open>candidates\<close>, when present, is an array; its first element, when there is
  one, is an object; \<open>content\<close>, when present, is an object; \<open>parts\<close>, when present, is
  an array; its first element, when there is one, is an object.
\<close>

fun is_dict :: "pyval \<Rightarrow> bool" where
  "is_dict (PDict kvs) = True"
| "is_dict _ = False"

definition expected_part_types :: "pyval \<Rightarrow> bool" where
  "expected_part_types ps = (case ps of PList [] \<Rightarrow> True | PList (p # _) \<Rightarrow> is_dict p | _ \<Rightarrow> False)"

definition expected_content_types :: "pyval \<Rightarrow> bool" where
  "expected_content_types ct =
     (is_dict ct \<and> (case field ''parts'' ct of None \<Rightarrow> True | Some ps \<Rightarrow> expected_part_types ps))"

definition expected_candidate_types :: "pyval \<Rightarrow> bool" where
  "expected_candidate_types cs =
     (case cs of
        PList [] \<Rightarrow> True
      | PList (c # _) \<Rightarrow>
          is_dict c \<and> (case field ''content'' c of None \<Rightarrow> True | Some ct \<Rightarrow> expected_content_types ct)
      | _ \<Rightarrow> False)"

definition expected_types :: "pyval \<Rightarrow> bool" where
  "expected_types rj =
     (is_dict rj \<and>
      (case field ''candidates'' rj of None \<Rightarrow> True | Some cs \<Rightarrow> expected_candidate_types cs))"


text \<open>The exceptions that the structure test and the return expression can raise.\<close>

definition raised_locally :: "pyexn \<Rightarrow> bool" where
  "raised_locally e = (e = TypeError \<or> e = KeyError \<or> e = IndexError)"





fun is_Http_post :: "event \<Rightarrow> bool" where
  "is_Http_post (Http_post req) = True"
| "is_Http_post _ = False"

section \<open>Facts about the Python operations\<close>

lemma field_Some: "field k v = Some x \<longleftrightarrow> (\<exists>kvs. v = PDict kvs \<and> map_of kvs k = Some x)"
  by (cases v) auto

lemma first_element_Some: "first_element v = Some x \<longleftrightarrow> (\<exists>xs. v = PList (x # xs))"
  by (cases v rule: first_element.cases) auto

lemma getitem_key_field: "getitem_key v k = Inr x \<longleftrightarrow> field k v = Some x"
  by (cases v) (auto split: option.splits)

lemma getitem_0_dict: "getitem_0 v = Inr (PDict kvs) \<longleftrightarrow> first_element v = Some (PDict kvs)"
  by (cases v rule: getitem_0.cases) auto

lemma py_in_dict: "py_in k (PDict kvs) = Inr (map_of kvs k \<noteq> None)"
  by (simp add: map_of_eq_None_iff)

lemma bind_exn_Inr: "bind_exn m f = Inr y \<longleftrightarrow> (\<exists>x. m = Inr x \<and> f x = Inr y)"
  by (cases m) (auto simp: bind_exn_def)

lemma bind_exn_Inl: "bind_exn m f = Inl e \<longleftrightarrow> m = Inl e \<or> (\<exists>x. m = Inr x \<and> f x = Inl e)"
  by (cases m) (auto simp: bind_exn_def)

lemma and_then_Inl: "and_then a b = Inl e \<longleftrightarrow> a = Inl e \<or> (a = Inr True \<and> b = Inl e)"
  by (cases a) (auto simp: and_then_def)

lemma getitem_key_exn: "getitem_key v k = Inl e \<Longrightarrow> raised_locally e"
  by (cases v) (auto simp: raised_locally_def split: option.splits)

lemma getitem_0_exn: "getitem_0 v = Inl e \<Longrightarrow> raised_locally e"
  by (cases v rule: getitem_0.cases) (auto simp: raised_locally_def)

lemma py_in_exn: "py_in k v = Inl e \<Longrightarrow> raised_locally e"
  by (cases v) (auto simp: raised_locally_def)

lemma py_len_exn: "py_len v = Inl e \<Longrightarrow> raised_locally e"
  by (cases v) (auto simp: raised_locally_def)

lemma candidates_of_exn: "candidates_of rj = Inl e \<Longrightarrow> raised_locally e"
  by (auto simp: candidates_of_def dest: getitem_key_exn)

lemma candidate0_of_exn: "candidate0_of rj = Inl e \<Longrightarrow> raised_locally e"
  by (auto simp: candidate0_of_def bind_exn_Inl dest: candidates_of_exn getitem_0_exn)

lemma content_of_exn: "content_of rj = Inl e \<Longrightarrow> raised_locally e"
  by (auto simp: content_of_def bind_exn_Inl dest: candidate0_of_exn getitem_key_exn)

lemma parts_of_exn: "parts_of rj = Inl e \<Longrightarrow> raised_locally e"
  by (auto simp: parts_of_def bind_exn_Inl dest: content_of_exn getitem_key_exn)

lemma part0_of_exn: "part0_of rj = Inl e \<Longrightarrow> raised_locally e"
  by (auto simp: part0_of_def bind_exn_Inl dest: parts_of_exn getitem_0_exn)

lemma text_of_exn: "text_of rj = Inl e \<Longrightarrow> raised_locally e"
  by (auto simp: text_of_def bind_exn_Inl dest: part0_of_exn getitem_key_exn)

lemma len_positive_exn: "len_positive m = Inl e \<Longrightarrow> m = Inl e \<or> raised_locally e"
  by (auto simp: len_positive_def bind_exn_Inl dest: py_len_exn)

lemma structure_test_exn: "structure_test rj = Inl e \<Longrightarrow> raised_locally e"
  unfolding structure_test_def and_then_Inl bind_exn_Inl
  by (auto dest: py_in_exn len_positive_exn candidates_of_exn candidate0_of_exn content_of_exn
      parts_of_exn part0_of_exn)

lemma text_of_path: "text_of rj = Inr t \<longleftrightarrow> path_text rj = Some t"
proof
  assume "text_of rj = Inr t"
  then obtain cs c ct ps p where
    "getitem_key rj ''candidates'' = Inr cs" "getitem_0 cs = Inr c"
    "getitem_key c ''content'' = Inr ct" "getitem_key ct ''parts'' = Inr ps"
    "getitem_0 ps = Inr p" "getitem_key p ''text'' = Inr t"
    by (auto simp: text_of_def part0_of_def parts_of_def content_of_def candidate0_of_def
        candidates_of_def bind_exn_Inr)
  then show "path_text rj = Some t"
    by (auto simp: path_text_def getitem_key_field field_Some getitem_0_dict first_element_Some)
next
  assume "path_text rj = Some t"
  then show "text_of rj = Inr t"
    by (auto simp: path_text_def bind_eq_Some_conv field_Some first_element_Some text_of_def
        part0_of_def parts_of_def content_of_def candidate0_of_def candidates_of_def bind_exn_def)
qed

lemma structure_test_path: "path_text rj = Some t \<Longrightarrow> structure_test rj = Inr True"
  by (auto simp: path_text_def bind_eq_Some_conv field_Some first_element_Some
        structure_test_def and_then_def bind_exn_def candidates_of_def
        candidate0_of_def content_of_def parts_of_def part0_of_def len_positive_def py_in_dict
        simp del: py_in.simps(1))

lemma is_dict_conv: "is_dict v \<longleftrightarrow> (\<exists>kvs. v = PDict kvs)"
  by (cases v) auto

lemma structure_test_expected:
  assumes "expected_types rj" "path_text rj = None"
  shows "structure_test rj = Inr False"
  using assms
  by (cases rj)
    (auto simp: expected_types_def expected_candidate_types_def expected_content_types_def
        expected_part_types_def path_text_def
        structure_test_def and_then_def bind_exn_def candidates_of_def
        candidate0_of_def content_of_def parts_of_def part0_of_def len_positive_def py_in_dict
        field_Some is_dict_conv
        simp del: py_in.simps(1) split: option.splits pyval.splits list.splits)

section \<open>Facts about the translator\<close>

lemma print_then_written:
  "stdout line = None \<Longrightarrow> print_then stdout line k = (Print line # fst k, snd k)"
  by (simp add: print_then_def)

lemma print_then_raises:
  "stdout line = Some e \<Longrightarrow> print_then stdout line k = ([Print line], Inl e)"
  by (simp add: print_then_def)


lemma print_then_no_post:
  "filter is_Http_post (fst k) = [] \<Longrightarrow> filter is_Http_post (fst (print_then stdout line k)) = []"
  by (simp add: print_then_def split: option.splits)

lemma handle_exn_local:
  "raised_locally e \<Longrightarrow>
   handle_exn e r stdout = print_then stdout (unexpected_line e) ([], Inr (PStr msg_unexpected))"
  by (auto simp: raised_locally_def handle_exn_def)

lemma handle_exn_no_post: "filter is_Http_post (fst (handle_exn e r stdout)) = []"
  by (simp add: handle_exn_def print_then_no_post)

lemma try_body_no_post: "filter is_Http_post (fst (try_body resp stdout)) = []"
  by (simp add: try_body_def print_then_no_post split: sum.splits)


lemma translate_post_raises:
  "post (build_request english_text api_key) = Inl e \<Longrightarrow>
   translate_english_to_japanese english_text api_key post stdout =
     (Http_post (build_request english_text api_key) # fst (handle_exn e None stdout),
      snd (handle_exn e None stdout))"
  by (simp add: translate_english_to_japanese_def Let_def split: prod.splits)

lemma translate_bad_status:
  assumes "post (build_request english_text api_key) = Inr resp"
    and "400 \<le> status_code resp" and "status_code resp < 600"
  shows "translate_english_to_japanese english_text api_key post stdout =
     (Http_post (build_request english_text api_key)
        # fst (print_then stdout (network_line HTTPError) ([], Inr (PStr msg_network))),
      snd (print_then stdout (network_line HTTPError) ([], Inr (PStr msg_network))))"
  using assms
  by (simp add: translate_english_to_japanese_def Let_def try_body_def raise_for_status_def
      handle_exn_def split: prod.splits)

lemma translate_json_raises:
  assumes "post (build_request english_text api_key) = Inr resp"
    and "raise_for_status resp = Inr ()" and "json_result resp = Inl e"
  shows "translate_english_to_japanese english_text api_key post stdout =
     (Http_post (build_request english_text api_key) # fst (handle_exn e (Some resp) stdout),
      snd (handle_exn e (Some resp) stdout))"
  using assms
  by (simp add: translate_english_to_japanese_def Let_def try_body_def split: prod.splits)

lemma translate_path_Some:
  assumes "post (build_request english_text api_key) = Inr resp"
    and "raise_for_status resp = Inr ()" and "json_result resp = Inr rj"
    and "path_text rj = Some t"
  shows "translate_english_to_japanese english_text api_key post stdout =
     ([Http_post (build_request english_text api_key)], Inr t)"
proof -
  from assms(4) have "structure_test rj = Inr True" "text_of rj = Inr t"
    by (simp_all add: structure_test_path text_of_path)
  with assms(1-3) show ?thesis
    by (simp add: translate_english_to_japanese_def Let_def try_body_def)
qed

text \<open>A missing link met by the test itself: the \<open>else\<close> branch and its print.\<close>

lemma translate_test_False:
  assumes "post (build_request english_text api_key) = Inr resp"
    and "raise_for_status resp = Inr ()" and "json_result resp = Inr rj"
    and "structure_test rj = Inr False"
  shows "snd (translate_english_to_japanese english_text api_key post stdout) =
     (case stdout (structure_line rj) of
        None \<Rightarrow> Inr (PStr msg_structure)
      | Some e \<Rightarrow> snd (handle_exn e (Some resp) stdout))"
  using assms
  by (simp add: translate_english_to_japanese_def Let_def try_body_def print_then_def
      split: option.splits prod.splits)

text \<open>A missing link met by an operation that raises: the last clause.\<close>

lemma translate_test_raises:
  assumes "post (build_request english_text api_key) = Inr resp"
    and "raise_for_status resp = Inr ()" and "json_result resp = Inr rj"
    and "path_text rj = None" and "structure_test rj \<noteq> Inr False"
  shows "\<exists>e. raised_locally e \<and>
     snd (translate_english_to_japanese english_text api_key post stdout) =
       snd (print_then stdout (unexpected_line e) ([], Inr (PStr msg_unexpected)))"
proof (cases "structure_test rj")
  case (Inl e)
  then have l: "raised_locally e" by (rule structure_test_exn)
  with Inl assms(1-3) have "snd (translate_english_to_japanese english_text api_key post stdout) =
       snd (print_then stdout (unexpected_line e) ([], Inr (PStr msg_unexpected)))"
    by (simp add: translate_english_to_japanese_def Let_def try_body_def handle_exn_local
        split: prod.splits)
  with l show ?thesis by blast
next
  case (Inr ok)
  with assms(5) have ok: "ok" by simp
  from assms(4) have "\<And>t. text_of rj \<noteq> Inr t" by (simp add: text_of_path)
  then obtain e where e: "text_of rj = Inl e" by (cases "text_of rj") auto
  then have l: "raised_locally e" by (rule text_of_exn)
  with e ok Inr assms(1-3)
  have "snd (translate_english_to_japanese english_text api_key post stdout) =
       snd (print_then stdout (unexpected_line e) ([], Inr (PStr msg_unexpected)))"
    by (simp add: translate_english_to_japanese_def Let_def try_body_def handle_exn_local
        split: prod.splits)
  with l show ?thesis by blast
qed

lemma path_text_success_body: "path_text (success_body t) = Some t"
  by (simp add: path_text_def success_body_def)

lemma raise_for_status_ok:
  "\<not> (400 \<le> status_code resp \<and> status_code resp < 600) \<Longrightarrow> raise_for_status resp = Inr ()"
  by (simp add: raise_for_status_def)

lemma translate_events:
  "\<exists>evs. fst (translate_english_to_japanese english_text api_key post stdout) =
           Http_post (build_request english_text api_key) # evs \<and> filter is_Http_post evs = []"
proof (cases "post (build_request english_text api_key)")
  case (Inl e)
  then show ?thesis
    by (simp add: translate_post_raises [where post = post] handle_exn_no_post)
next
  case (Inr resp)
  then show ?thesis
    by (simp add: translate_english_to_japanese_def Let_def case_prod_beta try_body_no_post
        handle_exn_no_post split: sum.splits)
qed


text \<open>The plain \<open>json.JSONDecodeError\<close> reaches the second clause.\<close>

lemma translate_plain_JSONDecodeError:
  assumes "post (build_request english_text api_key) = Inr resp"
    and "\<not> (400 \<le> status_code resp \<and> status_code resp < 600)"
    and "json_result resp = Inl JSONDecodeError"
    and "\<forall>line. stdout line = None"
  shows "snd (translate_english_to_japanese english_text api_key post stdout) = Inr (PStr msg_json)"
  using assms
  by (simp add: translate_json_raises [where post = post and resp = resp] raise_for_status_ok
      handle_exn_def print_then_def)

section \<open>The claims about the translator\<close>

text \<open>
  Claim C1. When the endpoint answers with a success status (200 to 299) and a body of the
  shape \<open>{"candidates":[{"content":{"parts":[{"text": t}]}}]}\<close>, the call returns exactly
  the string \<open>t\<close>, unchanged, and prints nothing; this holds for every source text and
  every credential, the non-empty ones among them, and for every standard output.
\<close>

theorem translate_returns_text:
  assumes "post (build_request english_text api_key) = Inr resp"
    and "200 \<le> status_code resp" and "status_code resp < 300"
    and "json_result resp = Inr (success_body (PStr t))"
  shows "translate_english_to_japanese english_text api_key post stdout =
     ([Http_post (build_request english_text api_key)], Inr (PStr t))"
proof -
  from assms(2,3) have "raise_for_status resp = Inr ()" by (simp add: raise_for_status_def)
  with assms(1,4) show ?thesis
    by (simp add: translate_path_Some [where post = post and resp = resp] path_text_success_body)
qed

text \<open>Claim C1 at a concrete endpoint; the spaces around the text are kept.\<close>

theorem translate_returns_text_witness:
  "translate_english_to_japanese ''Hello'' ''secret''
     (mock_response 200 ''{}'' (Inr (success_body (PStr '' konnichiwa '')))) stdout_ok
   = ([Http_post (build_request ''Hello'' ''secret'')], Inr (PStr '' konnichiwa ''))"
  by (rule translate_returns_text [where resp = "\<lparr>status_code = 200, response_text = ''{}'',
        json_result = Inr (success_body (PStr '' konnichiwa ''))\<rparr>"])
     (simp_all add: mock_response_def)

text \<open>
  Claim C2. A success status with a body that is not valid JSON should give the
  JSON-failure message. \<open>response.json()\<close> then raises
  \<open>requests.exceptions.JSONDecodeError\<close>, which is a \<open>RequestException\<close> too, so the
  first \<open>except\<close> clause takes it and the call returns the network-failure message.
\<close>

theorem translate_invalid_json_is_network_message:
  "snd (translate_english_to_japanese ''Hello'' ''secret''
          (mock_response 200 ''<html>'' (Inl RequestsJSONDecodeError)) stdout_ok)
   = Inr (PStr ''Translation failed due to network error.'')"
  by (simp add: translate_english_to_japanese_def Let_def mock_response_def try_body_def
      raise_for_status_def handle_exn_def print_then_def stdout_ok_def msg_network_def)

text \<open>
  Claim C3 as stated fails. In the body \<open>{"candidates":[{"content":null}]}\<close> the link
  \<open>parts\<close> is missing, the test \<open>"parts" in None\<close> raises \<open>TypeError\<close>, and the call
  returns the message of the last \<open>except\<close> clause. In the body \<open>{"foo":"cafe"}\<close>, the
  last letter with an acute accent, the test finds the link missing, but on a standard output that
  cannot encode the diagnostic line the \<open>print\<close> of the \<open>else\<close> branch raises
  inside the \<open>try\<close>, and the last clause answers again.
\<close>

theorem missing_link_counterexample:
  "path_text (PDict [(''candidates'', PList [PDict [(''content'', PNone)]])]) = None \<and>
   snd (translate_english_to_japanese ''Hello'' ''secret''
          (mock_response 200 ''{}''
             (Inr (PDict [(''candidates'', PList [PDict [(''content'', PNone)]])])))
          stdout_ok)
     = Inr (PStr ''Translation failed due to an unexpected error.'') \<and>
   expected_types (PDict [(''foo'', PStr (''caf'' @ [CHR 0xE9]))]) \<and>
   path_text (PDict [(''foo'', PStr (''caf'' @ [CHR 0xE9]))]) = None \<and>
   snd (translate_english_to_japanese ''Hello'' ''secret''
          (mock_response 200 ''{}'' (Inr (PDict [(''foo'', PStr (''caf'' @ [CHR 0xE9]))])))
          (stdout_rejecting [structure_line (PDict [(''foo'', PStr (''caf'' @ [CHR 0xE9]))])]))
     = Inr (PStr ''Translation failed due to an unexpected error.'')"
  by (simp add: path_text_def expected_types_def translate_english_to_japanese_def
      mock_response_def try_body_def
      raise_for_status_def structure_test_def and_then_def bind_exn_def candidates_of_def
      candidate0_of_def content_of_def parts_of_def part0_of_def len_positive_def handle_exn_def
      print_then_def stdout_ok_def stdout_rejecting_def structure_line_def unexpected_line_def
      msg_unexpected_def)

text \<open>
  Claim C3, amended. For a body that parses and in which a link of the path
  \<open>candidates[0].content.parts[0].text\<close> is missing, the call returns the
  unexpected-structure message whenever the values along the path have the expected
  types (objects and arrays) and the diagnostic line with the raw body is printed; and
  whenever the standard output writes every line, the call returns that message or the
  unexpected-error message.
\<close>

theorem missing_link_message:
  assumes "post (build_request english_text api_key) = Inr resp"
    and "\<not> (400 \<le> status_code resp \<and> status_code resp < 600)"
    and "json_result resp = Inr rj"
    and "path_text rj = None"
  shows "(expected_types rj \<and>
          stdout [Lit ''Error: Unexpected API response structure. Raw response:'',
                  Lit [CHR 0x0A], Str_of rj] = None \<longrightarrow>
            snd (translate_english_to_japanese english_text api_key post stdout) =
              Inr (PStr ''Translation failed: API response structure was unexpected.''))
       \<and> ((\<forall>line. stdout line = None) \<longrightarrow>
            snd (translate_english_to_japanese english_text api_key post stdout) =
              Inr (PStr ''Translation failed: API response structure was unexpected.'')
          \<or> snd (translate_english_to_japanese english_text api_key post stdout) =
              Inr (PStr ''Translation failed due to an unexpected error.''))"
proof -
  from assms(2) have ok: "raise_for_status resp = Inr ()" by (rule raise_for_status_ok)
  have 1: "snd (translate_english_to_japanese english_text api_key post stdout) =
              Inr (PStr ''Translation failed: API response structure was unexpected.'')"
    if "structure_test rj = Inr False" and "stdout (structure_line rj) = None"
    using that assms(1) ok assms(3)
    by (simp add: translate_test_False [where post = post and resp = resp] msg_structure_def)
  have 2: "snd (translate_english_to_japanese english_text api_key post stdout) =
              Inr (PStr ''Translation failed due to an unexpected error.'')"
    if "structure_test rj \<noteq> Inr False" and "\<forall>line. stdout line = None"
  proof -
    from translate_test_raises [where post = post and stdout = stdout, OF assms(1) ok assms(3,4) that(1)]
    obtain e where "snd (translate_english_to_japanese english_text api_key post stdout) =
       snd (print_then stdout (unexpected_line e) ([], Inr (PStr msg_unexpected)))"
      by blast
    with that(2) show ?thesis by (simp add: print_then_def msg_unexpected_def)
  qed
  have a: "expected_types rj \<and>
          stdout [Lit ''Error: Unexpected API response structure. Raw response:'',
                  Lit [CHR 0x0A], Str_of rj] = None \<longrightarrow>
            snd (translate_english_to_japanese english_text api_key post stdout) =
              Inr (PStr ''Translation failed: API response structure was unexpected.'')"
    using 1 structure_test_expected [OF _ assms(4)] by (simp add: structure_line_def)
  have b: "(\<forall>line. stdout line = None) \<longrightarrow>
            snd (translate_english_to_japanese english_text api_key post stdout) =
              Inr (PStr ''Translation failed: API response structure was unexpected.'')
          \<or> snd (translate_english_to_japanese english_text api_key post stdout) =
              Inr (PStr ''Translation failed due to an unexpected error.'')"
    using 1 2 by (cases "structure_test rj = Inr False") auto
  from a b show ?thesis by blast
qed

text \<open>Claim C3, amended, on the body \<open>{"foo": "bar"}\<close> and an output that writes every line.\<close>

theorem missing_link_message_witness:
  "expected_types (PDict [(''foo'', PStr ''bar'')]) \<and>
   path_text (PDict [(''foo'', PStr ''bar'')]) = None \<and>
   (\<forall>line. stdout_ok line = None) \<and>
   snd (translate_english_to_japanese ''Hello'' ''secret''
          (mock_response 200 ''{}'' (Inr (PDict [(''foo'', PStr ''bar'')]))) stdout_ok)
   = Inr (PStr ''Translation failed: API response structure was unexpected.'')"
proof -
  have e: "expected_types (PDict [(''foo'', PStr ''bar'')])"
    by (simp add: expected_types_def)
  have p: "path_text (PDict [(''foo'', PStr ''bar'')]) = None"
    by (simp add: path_text_def)
  have w: "\<forall>line. stdout_ok line = None" by (simp add: stdout_ok_def)
  from missing_link_message [where resp = "\<lparr>status_code = 200, response_text = ''{}'',
        json_result = Inr (PDict [(''foo'', PStr ''bar'')])\<rparr>"
      and post = "mock_response 200 ''{}'' (Inr (PDict [(''foo'', PStr ''bar'')]))"
      and stdout = stdout_ok, OF _ _ _ p]
  show ?thesis using e p w by (simp add: mock_response_def)
qed

text \<open>
  Claim C4 as stated fails. \<open>raise_for_status\<close> raises for 4xx and 5xx only, so a status
  300 with a well-formed body is parsed and its text returned. And at a status 500 the
  \<open>print\<close> of the \<open>except\<close> clause is outside the \<open>try\<close>: on a standard output that
  cannot encode its line the exception leaves the function.
\<close>

theorem non_success_status_counterexample:
  "snd (translate_english_to_japanese ''Hello'' ''secret''
          (mock_response 300 ''{}'' (Inr (success_body (PStr ''konnichiwa'')))) stdout_ok)
     = Inr (PStr ''konnichiwa'') \<and>
   snd (translate_english_to_japanese ''Hello'' ''secret''
          (mock_response 500 ''oops'' (Inr (success_body (PStr ''konnichiwa''))))
          (stdout_rejecting [network_line HTTPError]))
     = Inl UnicodeEncodeError"
  by (simp add: translate_path_Some [where resp = "\<lparr>status_code = 300, response_text = ''{}'',
        json_result = Inr (success_body (PStr ''konnichiwa''))\<rparr>"]
      translate_bad_status [where resp = "\<lparr>status_code = 500, response_text = ''oops'',
        json_result = Inr (success_body (PStr ''konnichiwa''))\<rparr>"]
      mock_response_def raise_for_status_def path_text_success_body print_then_def
      stdout_rejecting_def)

text \<open>
  Claim C4, amended. For every 4xx or 5xx status the call does not parse the body, and
  when the diagnostic line of the clause is printed it returns the network-failure
  message: the result does not depend on the body.
\<close>

theorem error_status_message:
  assumes "post (build_request english_text api_key) = Inr resp"
    and "400 \<le> status_code resp" and "status_code resp < 600"
    and "stdout [Lit ''Error: Network or HTTP request failed: '', Str_of_exn HTTPError] = None"
  shows "translate_english_to_japanese english_text api_key post stdout =
     ([Http_post (build_request english_text api_key),
       Print [Lit ''Error: Network or HTTP request failed: '', Str_of_exn HTTPError]],
      Inr (PStr ''Translation failed due to network error.''))"
  using assms
  by (simp add: translate_bad_status [where post = post and resp = resp] msg_network_def
      print_then_def network_line_def)

text \<open>Claim C4, amended, at status 500 with a body that would parse.\<close>

theorem error_status_message_witness:
  "translate_english_to_japanese ''Hello'' ''secret''
     (mock_response 500 ''oops'' (Inr (success_body (PStr ''konnichiwa'')))) stdout_ok
   = ([Http_post (build_request ''Hello'' ''secret''),
       Print [Lit ''Error: Network or HTTP request failed: '', Str_of_exn HTTPError]],
      Inr (PStr ''Translation failed due to network error.''))"
  by (rule error_status_message [where resp = "\<lparr>status_code = 500, response_text = ''oops'',
        json_result = Inr (success_body (PStr ''konnichiwa''))\<rparr>"])
     (simp_all add: mock_response_def stdout_ok_def)

section \<open>The claims about the request and the failures\<close>

text \<open>
  Claim C5. For every source text, every credential, every endpoint and every standard
  output, the call sends exactly one request: a POST to the endpoint's URL with the
  credential appended as \<open>key=<credential>\<close>, the JSON content-type and accept headers,
  and the payload \<open>{"contents":[{"role":"user","parts":[{"text": p}]}]}\<close> whose prompt
  \<open>p\<close> is the fixed instruction, two newlines and the source text, verbatim, between
  double quotes.
\<close>

theorem outbound_request:
  "filter is_Http_post (fst (translate_english_to_japanese english_text api_key post stdout)) =
     [Http_post
        \<lparr>http_method = ''POST'',
         url = ''https://generativelanguage.googleapis.com/v1beta/models/gemini-2.0-flash:generateContent?key=''
                 @ api_key,
         headers = [(''Content-Type'', ''application/json''), (''Accept'', ''application/json'')],
         json_payload =
           PDict [(''contents'',
             PList [PDict [(''role'', PStr ''user''),
                           (''parts'', PList [PDict [(''text'',
                              PStr (''Translate the following English text to Japanese (only provide the Japanese text):''
                                      @ [CHR 0x0A, CHR 0x0A, CHR 0x22] @ english_text @ [CHR 0x22]))]])]])]\<rparr>]"
proof -
  obtain evs where "fst (translate_english_to_japanese english_text api_key post stdout) =
      Http_post (build_request english_text api_key) # evs" "filter is_Http_post evs = []"
    using translate_events by blast
  then show ?thesis
    by (simp add: build_request_def api_url_of_def request_headers_def request_payload_of_def
        prompt_of_def)
qed

text \<open>
  Claim C6. The function is to return a string, the translation or an error message, and
  to let no exception out; its docstring and its annotation \<open>-> str\<close> say so. The code
  misses this twice. The success \<open>return\<close> hands back the \<open>text\<close> field as it is: for
  the body \<open>{"candidates":[{"content":{"parts":[{"text": 5}]}}]}\<close> the int 5. And the
  prints of the \<open>except\<close> clauses are outside the \<open>try\<close>: at a status 500, on a
  standard output that cannot encode the diagnostic line, \<open>UnicodeEncodeError\<close> leaves
  the function, and the shell, which has no handler, ends with it before the exit line is
  read.
\<close>

theorem translator_boundary_failures:
  "snd (translate_english_to_japanese ''Hello'' ''secret''
          (mock_response 200 ''{}'' (Inr (success_body (PInt 5)))) stdout_ok)
     = Inr (PInt 5) \<and>
   snd (translate_english_to_japanese ''Hello'' ''secret''
          (mock_response 500 ''oops'' (Inl RequestsJSONDecodeError))
          (stdout_rejecting [network_line HTTPError]))
     = Inl UnicodeEncodeError \<and>
   snd (read_loop (every_call (mock_response 500 ''oops'' (Inl RequestsJSONDecodeError)))
          (stdout_rejecting [network_line HTTPError]) 0 ''secret'' [''Hello'', ''exit''])
     = Uncaught UnicodeEncodeError"
proof -
  have 1: "snd (translate_english_to_japanese ''Hello'' ''secret''
          (mock_response 200 ''{}'' (Inr (success_body (PInt 5)))) stdout_ok) = Inr (PInt 5)"
    by (simp add: translate_path_Some [where resp = "\<lparr>status_code = 200, response_text = ''{}'',
        json_result = Inr (success_body (PInt 5))\<rparr>"]
      mock_response_def raise_for_status_def path_text_success_body)
  have 2: "snd (translate_english_to_japanese ''Hello'' ''secret''
          (mock_response 500 ''oops'' (Inl RequestsJSONDecodeError))
          (stdout_rejecting [network_line HTTPError])) = Inl UnicodeEncodeError"
    by (simp add: translate_bad_status [where resp = "\<lparr>status_code = 500, response_text = ''oops'',
        json_result = Inl RequestsJSONDecodeError\<rparr>"]
      mock_response_def print_then_def stdout_rejecting_def)
  have l: "lower ''Hello'' \<noteq> ''exit''" by code_simp
  have s: "strip ''Hello'' \<noteq> []" by code_simp
  from 2 obtain tevs where "translate_english_to_japanese ''Hello'' ''secret''
          (mock_response 500 ''oops'' (Inl RequestsJSONDecodeError))
          (stdout_rejecting [network_line HTTPError]) = (tevs, Inl UnicodeEncodeError)"
    by (metis prod.collapse)
  with l s have 3: "snd (read_loop (every_call (mock_response 500 ''oops'' (Inl RequestsJSONDecodeError)))
          (stdout_rejecting [network_line HTTPError]) 0 ''secret'' [''Hello'', ''exit''])
     = Uncaught UnicodeEncodeError"
    by (simp add: every_call_def)
  from 1 2 3 show ?thesis by blast
qed

section \<open>Facts about the shell\<close>







section \<open>The claims about the shell\<close>

text \<open>
  Claim C7. A line whose lowercase form is \<open>exit\<close> ends the loop: after the prompt
  nothing is printed, the translator is not called, and the rest of the input is not read.
\<close>

theorem exit_line_ends_loop:
  assumes "lower english_input = ''exit''"
  shows "read_loop post stdout n api_key (english_input # rest) =
           ([Input_prompt (CHR 0x0A # ''English: '')], Finished)"
  using assms by (simp add: english_prompt_def)

text \<open>Claim C7 on the line \<open>ExIt\<close>.\<close>

theorem exit_line_ends_loop_witness:
  "lower ''ExIt'' = ''exit'' \<and>
   read_loop flaky_endpoint stdout_ok 0 ''secret'' [''ExIt'', ''Hello''] =
     ([Input_prompt (CHR 0x0A # ''English: '')], Finished)"
proof -
  have l: "lower ''ExIt'' = ''exit''" by code_simp
  from exit_line_ends_loop [OF l] l show ?thesis by blast
qed



section \<open>The claim about the values returned on failure\<close>



section \<open>The claim about the exit comparison\<close>



end
